theory Spec2Isabelle
  imports Main
begin

section \<open>The WhatsApp gateway of \<open>wha_api/index.js\<close>\<close>

text \<open>
  The server keeps one global, \<open>globalSocket\<close>, the handle of the WhatsApp session
  (\<open>null\<close> until \<open>connectToWhatsApp\<close> has created a socket). Socket.IO clients
  call \<open>send_message\<close>, \<open>send_pdf\<close> and \<open>check_status\<close>; the session's
  \<open>connection.update\<close> and \<open>messages.upsert\<close> events are fanned out to all clients.

  Every handler is modelled as a function from the global state and the handler's inputs to
  the ordered list of the effects it performs, together with the exception that escapes the
  handler, if any. What the environment decides (the outcome of the network call, whether the
  PDF file exists, the clock) is an argument of the handler. The \<open>callback\<close> of a request
  is the acknowledgement function that Socket.IO hands to the handler; calling it is an effect
  and does not throw.
\<close>

subsection \<open>Values and effects\<close>

type_synonym client = nat  \<comment> \<open>a Socket.IO connection (\<open>socket.id\<close>)\<close>
type_synonym sock = nat    \<comment> \<open>an object returned by \<open>makeWASocket\<close>\<close>

text \<open>A field of a request as it arrives from the client: only a string has \<open>replace\<close>.\<close>

datatype jsval = JUndefined | JStr string | JNum int

text \<open>
  A thrown value. \<open>Thrown_nullish\<close> is \<open>undefined\<close> or \<open>null\<close>, on which reading
  \<open>.message\<close> throws; \<open>Thrown_obj m\<close> is any other value, \<open>m\<close> its \<open>message\<close>
  property (\<open>None\<close> when it has none).
\<close>

datatype thrown = Thrown_nullish | Thrown_obj "string option"

text \<open>The second argument of \<open>sock.sendMessage\<close>.\<close>

datatype content =
    Text jsval
  | Document string string string  \<comment> \<open>\<open>document.url\<close>, \<open>mimetype\<close>, \<open>fileName\<close>\<close>

text \<open>The object passed to the callback of \<open>send_message\<close> and \<open>send_pdf\<close>.\<close>

datatype send_reply =
    Success string  \<comment> \<open>\<open>{success: true, message}\<close>\<close>
  | Failure string  \<comment> \<open>\<open>{success: false, error}\<close>\<close>

text \<open>The object passed to the callback of \<open>check_status\<close>.\<close>

record status_reply =
  connected :: bool
  status :: string

text \<open>The \<open>newMessage\<close> object of the \<open>messages.upsert\<close> handler.\<close>

record new_message =
  nm_from :: "string option"
  nm_sender :: string
  nm_message :: string
  nm_timestamp :: int
  nm_type :: "string option"

datatype event =
    Keep_alive
  | Qr string
  | Connection_status string
  | New_message new_message

datatype effect =
    Emit client event                \<comment> \<open>\<open>socket.emit\<close>: to one client\<close>
  | Broadcast event                  \<comment> \<open>\<open>io.emit\<close>: to every connected client\<close>
  | Callback client send_reply       \<comment> \<open>the \<open>callback\<close> of that client's request\<close>
  | Status_callback client status_reply
  | SendMessage sock string content  \<comment> \<open>\<open>globalSocket.sendMessage(jid, content)\<close>\<close>
  | ConnectToWhatsApp                \<comment> \<open>a call of \<open>connectToWhatsApp()\<close>\<close>

record server =
  globalSocket :: "sock option"

definition initial :: server where
  "initial = \<lparr>globalSocket = None\<rparr>"

text \<open>
  \<open>connectToWhatsApp\<close>, from the point where \<open>makeWASocket\<close> has returned \<open>s\<close>:
  the handle is stored at once, before any \<open>connection.update\<close> of that socket.
\<close>

definition connectToWhatsApp :: "server \<Rightarrow> sock \<Rightarrow> server" where
  "connectToWhatsApp st s = st\<lparr>globalSocket := Some s\<rparr>"

subsection \<open>Literals of the source\<close>

definition msg_not_connected :: string where
  "msg_not_connected = ''WhatsApp no est'' @ [CHR 0xC3, CHR 0xA1] @ '' conectado''"

definition msg_general_pdf :: string where
  "msg_general_pdf =
     ''Error general al procesar el env'' @ [CHR 0xC3, CHR 0xAD] @ ''o de PDF''"

definition timeout_ms :: nat where
  "timeout_ms = 25000"

text \<open>
  The messages of the engine's \<open>TypeError\<close>s (V8's wording); the handlers only pass them
  on, and nothing below depends on the wording beyond their being non-empty.
\<close>

definition type_error :: "string \<Rightarrow> thrown" where
  "type_error what = Thrown_obj (Some (''TypeError: '' @ what))"

subsection \<open>\<open>check_status\<close>\<close>

definition check_status_reply :: "server \<Rightarrow> status_reply" where
  "check_status_reply st =
     \<lparr>connected = (globalSocket st \<noteq> None),
      status = (if globalSocket st \<noteq> None then ''connected'' else ''disconnected'')\<rparr>"

definition check_status :: "server \<Rightarrow> client \<Rightarrow> effect list \<times> thrown option" where
  "check_status st c = ([Status_callback c (check_status_reply st)], None)"

subsection \<open>Sending: the pieces shared by \<open>send_message\<close> and \<open>send_pdf\<close>\<close>

text \<open>The \<open>data\<close> argument; \<open>send_pdf\<close> reads only \<open>number\<close>.\<close>

record send_data =
  number :: jsval
  message :: jsval

text \<open>\<open>const { number, message } = data\<close> throws when \<open>data\<close> is \<open>undefined\<close>.\<close>

definition destructure :: "send_data option \<Rightarrow> thrown + send_data" where
  "destructure data =
     (case data of
        None \<Rightarrow> Inl (type_error ''Cannot destructure property number of data as it is undefined.'')
      | Some d \<Rightarrow> Inr d)"

text \<open>\<open>number.replace(/[^\d]/g, '') + '@s.whatsapp.net'\<close>\<close>

definition format_number :: "jsval \<Rightarrow> thrown + string" where
  "format_number n =
     (case n of
        JStr s \<Rightarrow> Inr (filter (\<lambda>c. c \<in> set ''0123456789'') s @ ''@s.whatsapp.net'')
      | JUndefined \<Rightarrow> Inl (type_error ''Cannot read properties of undefined (reading replace)'')
      | JNum _ \<Rightarrow> Inl (type_error ''number.replace is not a function''))"

text \<open>
  What the network layer does with one \<open>sendMessage\<close> call: the promise is fulfilled or
  rejected some milliseconds after the call, or never settles.
\<close>

datatype net_outcome = Resolves nat | Rejects nat thrown | Never_settles

text \<open>
  \<open>Promise.race([sendMessage(...), new Promise((_, reject) => setTimeout(() => reject(new
  Error(msg)), 25000))])\<close>: the first promise to settle decides, and a later settlement of
  the other is ignored. The network wins when it settles before the timer is due; when both
  are due in the same turn of the event loop the timer's callback runs first.
\<close>

definition race :: "net_outcome \<Rightarrow> string \<Rightarrow> thrown + unit" where
  "race net msg =
     (case net of
        Resolves t \<Rightarrow> if t < timeout_ms then Inr () else Inl (Thrown_obj (Some msg))
      | Rejects t e \<Rightarrow> if t < timeout_ms then Inl e else Inl (Thrown_obj (Some msg))
      | Never_settles \<Rightarrow> Inl (Thrown_obj (Some msg)))"

text \<open>\<open>a || b || ... || d\<close> on strings that may be \<open>undefined\<close>: the first non-empty one.\<close>

fun first_truthy :: "string option list \<Rightarrow> string \<Rightarrow> string" where
  "first_truthy [] d = d"
| "first_truthy (None # vs) d = first_truthy vs d"
| "first_truthy (Some s # vs) d = (if s \<noteq> [] then s else first_truthy vs d)"

text \<open>\<open>error.message || fallback\<close>; reading \<open>.message\<close> of a nullish \<open>error\<close> throws.\<close>

definition error_message_or :: "thrown \<Rightarrow> string \<Rightarrow> thrown + string" where
  "error_message_or error fallback =
     (case error of
        Thrown_nullish \<Rightarrow> Inl (type_error ''Cannot read properties of undefined (reading message)'')
      | Thrown_obj m \<Rightarrow> Inr (first_truthy [m] fallback))"

text \<open>The body of both \<open>catch\<close> blocks: \<open>callback({success: false, error: error.message || fallback})\<close>.\<close>

definition catch_reply :: "client \<Rightarrow> string \<Rightarrow> thrown \<Rightarrow> effect list \<times> thrown option" where
  "catch_reply c fallback error =
     (case error_message_or error fallback of
        Inl e \<Rightarrow> ([], Some e)
      | Inr m \<Rightarrow> ([Callback c (Failure m)], None))"

text \<open>\<open>try { body } catch (error) { handler }\<close>, and a statement sequence \<open>effs; rest\<close>.\<close>

definition try_catch ::
  "effect list \<times> thrown option \<Rightarrow> (thrown \<Rightarrow> effect list \<times> thrown option) \<Rightarrow> effect list \<times> thrown option" where
  "try_catch body handler =
     (case body of
        (effs, None) \<Rightarrow> (effs, None)
      | (effs, Some e) \<Rightarrow> (case handler e of (effs', r) \<Rightarrow> (effs @ effs', r)))"

definition then_do :: "effect list \<Rightarrow> effect list \<times> thrown option \<Rightarrow> effect list \<times> thrown option" where
  "then_do effs rest = (case rest of (effs', r) \<Rightarrow> (effs @ effs', r))"

text \<open>
  The part that the two handlers have in common, from the first \<open>keep_alive\<close> on:
  \<^verbatim>\<open>
  socket.emit('keep_alive');
  try {
      await Promise.race([globalSocket.sendMessage(jid, content), <timer rejecting with timeout_msg>]);
      socket.emit('keep_alive');
      callback({ success: true, message: ok_msg });
  } catch (error) {
      callback({ success: false, error: error.message || fallback });
  }
  \<close>
\<close>

definition dispatch ::
  "client \<Rightarrow> sock \<Rightarrow> string \<Rightarrow> content \<Rightarrow> net_outcome \<Rightarrow> string \<Rightarrow> string \<Rightarrow> string
     \<Rightarrow> effect list \<times> thrown option" where
  "dispatch c gs jid ct net timeout_msg ok_msg fallback =
     then_do [Emit c Keep_alive]
       (try_catch
          (then_do [SendMessage gs jid ct]
             (case race net timeout_msg of
                Inl e \<Rightarrow> ([], Some e)
              | Inr _ \<Rightarrow> ([Emit c Keep_alive, Callback c (Success ok_msg)], None)))
          (catch_reply c fallback))"

subsection \<open>\<open>send_message\<close>\<close>

definition send_message ::
  "server \<Rightarrow> client \<Rightarrow> send_data option \<Rightarrow> net_outcome \<Rightarrow> effect list \<times> thrown option" where
  "send_message st c data net =
     try_catch
       (case globalSocket st of
          None \<Rightarrow> ([Callback c (Failure msg_not_connected)], None)
        | Some gs \<Rightarrow>
            (case destructure data of
               Inl e \<Rightarrow> ([], Some e)
             | Inr d \<Rightarrow>
                 (case format_number (number d) of
                    Inl e \<Rightarrow> ([], Some e)
                  | Inr formattedNumber \<Rightarrow>
                      dispatch c gs formattedNumber (Text (message d)) net
                        ''Timeout al enviar mensaje'' ''Mensaje enviado correctamente''
                        ''Error al enviar mensaje'')))
       (catch_reply c ''Error general al procesar el mensaje'')"

subsection \<open>\<open>send_pdf\<close>\<close>

text \<open>\<open>path.join(__dirname, 'menu_go_papa.pdf')\<close>, for the directory of the script.\<close>

definition pdfFilePath :: "string \<Rightarrow> string" where
  "pdfFilePath dirname = dirname @ ''/menu_go_papa.pdf''"

text \<open>\<open>existsSync\<close> is \<open>fs.existsSync\<close> at the moment of the request.\<close>

definition send_pdf ::
  "string \<Rightarrow> (string \<Rightarrow> bool) \<Rightarrow> server \<Rightarrow> client \<Rightarrow> send_data option \<Rightarrow> net_outcome
     \<Rightarrow> effect list \<times> thrown option" where
  "send_pdf dirname existsSync st c data net =
     try_catch
       (case globalSocket st of
          None \<Rightarrow> ([Callback c (Failure msg_not_connected)], None)
        | Some gs \<Rightarrow>
            (case destructure data of
               Inl e \<Rightarrow> ([], Some e)
             | Inr d \<Rightarrow>
                 (case format_number (number d) of
                    Inl e \<Rightarrow> ([], Some e)
                  | Inr formattedNumber \<Rightarrow>
                      if \<not> existsSync (pdfFilePath dirname)
                      then ([Callback c (Failure ''El archivo PDF no existe'')], None)
                      else
                        dispatch c gs formattedNumber
                          (Document (pdfFilePath dirname) ''application/pdf'' ''menu go papa.pdf'')
                          net ''Timeout al enviar PDF'' ''PDF enviado correctamente''
                          ''Error al enviar PDF'')))
       (catch_reply c msg_general_pdf)"

subsection \<open>\<open>connection.update\<close>\<close>

text \<open>
  \<open>lastDisconnect.error\<close>: a Boom error carries \<open>output.statusCode\<close>, any other
  error has no \<open>output\<close>.
\<close>

datatype disconnect_error = Boom "int option" | Plain_error

record last_disconnect =
  error :: "disconnect_error option"

record update =
  connection :: "string option"
  lastDisconnect :: "last_disconnect option"
  qr :: "string option"

text \<open>\<open>(lastDisconnect.error)?.output?.statusCode\<close>, for a \<open>lastDisconnect\<close> that is there.\<close>

definition statusCode :: "last_disconnect \<Rightarrow> int option" where
  "statusCode ld =
     (case error ld of
        None \<Rightarrow> None
      | Some Plain_error \<Rightarrow> None
      | Some (Boom sc) \<Rightarrow> sc)"

text \<open>
  The handler; \<open>loggedOut\<close> is the library's \<open>DisconnectReason.loggedOut\<close>. Reading
  \<open>lastDisconnect.error\<close> of an update without \<open>lastDisconnect\<close> throws, and the
  statements after it are not reached.
\<close>

definition on_connection_update :: "int \<Rightarrow> update \<Rightarrow> effect list \<times> thrown option" where
  "on_connection_update loggedOut u =
     then_do
       (case qr u of
          None \<Rightarrow> []
        | Some q \<Rightarrow> if q \<noteq> [] then [Broadcast (Qr q)] else [])
       (if connection u = Some ''close'' then
          (case lastDisconnect u of
             None \<Rightarrow>
               ([], Some (type_error ''Cannot read properties of undefined (reading error)''))
           | Some ld \<Rightarrow>
               (let shouldReconnect = (statusCode ld \<noteq> Some loggedOut)
                in ((if shouldReconnect then [ConnectToWhatsApp] else [])
                      @ [Broadcast (Connection_status ''disconnected'')], None)))
        else if connection u = Some ''open'' then
          ([Broadcast (Connection_status ''connected'')], None)
        else ([], None))"

subsection \<open>\<open>messages.upsert\<close>\<close>

text \<open>
  The keys of \<open>message.message\<close> in their order, with what the handler reads of each:
  the string \<open>conversation\<close>, \<open>extendedTextMessage.text\<close>, the \<open>caption\<close> of an
  \<open>imageMessage\<close> or of a \<open>videoMessage\<close>; any other key by its name.
\<close>

datatype payload_field =
    Conversation string
  | ExtendedTextMessage "string option"
  | ImageMessage "string option"
  | VideoMessage "string option"
  | Other_field string

record wa_key =
  remoteJid :: "string option"
  fromMe :: bool

record wa_message =
  key :: wa_key
  message_payload :: "payload_field list option"  \<comment> \<open>\<open>message.message\<close>\<close>
  pushName :: "string option"
  messageTimestamp :: "int option"

fun conversation :: "payload_field list \<Rightarrow> string option" where
  "conversation [] = None"
| "conversation (Conversation s # fs) = Some s"
| "conversation (f # fs) = conversation fs"

fun extendedTextMessage_text :: "payload_field list \<Rightarrow> string option" where
  "extendedTextMessage_text [] = None"
| "extendedTextMessage_text (ExtendedTextMessage t # fs) = t"
| "extendedTextMessage_text (f # fs) = extendedTextMessage_text fs"

fun imageMessage_caption :: "payload_field list \<Rightarrow> string option" where
  "imageMessage_caption [] = None"
| "imageMessage_caption (ImageMessage cap # fs) = cap"
| "imageMessage_caption (f # fs) = imageMessage_caption fs"

fun field_key :: "payload_field \<Rightarrow> string" where
  "field_key (Conversation _) = ''conversation''"
| "field_key (ExtendedTextMessage _) = ''extendedTextMessage''"
| "field_key (ImageMessage _) = ''imageMessage''"
| "field_key (VideoMessage _) = ''videoMessage''"
| "field_key (Other_field k) = k"

text \<open>
  The object literal \<open>newMessage\<close>, for a message with payload \<open>p\<close>; \<open>now\<close> is
  \<open>Date.now()\<close>. \<open>remoteJid.split\<close> throws when there is neither a \<open>pushName\<close>
  nor a \<open>remoteJid\<close>.
\<close>

definition newMessage :: "int \<Rightarrow> wa_message \<Rightarrow> payload_field list \<Rightarrow> thrown + new_message" where
  "newMessage now m p =
     (case (if pushName m \<noteq> None \<and> pushName m \<noteq> Some [] then Inr (first_truthy [pushName m] [])
            else (case remoteJid (key m) of
                    None \<Rightarrow> Inl (type_error ''Cannot read properties of undefined (reading split)'')
                  | Some jid \<Rightarrow> Inr (takeWhile (\<lambda>c. c \<noteq> CHR ''@'') jid))) of
        Inl e \<Rightarrow> Inl e
      | Inr sender \<Rightarrow>
          Inr \<lparr>nm_from = remoteJid (key m),
               nm_sender = sender,
               nm_message =
                 first_truthy
                   [conversation p, extendedTextMessage_text p, imageMessage_caption p]
                   ''Mensaje multimedia'',
               nm_timestamp =
                 (case messageTimestamp m of
                    None \<Rightarrow> now
                  | Some t \<Rightarrow> if t * 1000 \<noteq> 0 then t * 1000 else now),
               nm_type = (case p of [] \<Rightarrow> None | f # _ \<Rightarrow> Some (field_key f))\<rparr>)"

text \<open>The loop over \<open>messages\<close>; an exception ends it.\<close>

fun messages_upsert :: "int \<Rightarrow> wa_message list \<Rightarrow> effect list \<times> thrown option" where
  "messages_upsert now [] = ([], None)"
| "messages_upsert now (m # ms) =
     (case message_payload m of
        None \<Rightarrow> messages_upsert now ms
      | Some p \<Rightarrow>
          if fromMe (key m) then messages_upsert now ms
          else (case newMessage now m p of
                  Inl e \<Rightarrow> ([], Some e)
                | Inr nm \<Rightarrow> then_do [Broadcast (New_message nm)] (messages_upsert now ms)))"

subsection \<open>The server as a whole\<close>

record env =
  loggedOut :: int                  \<comment> \<open>\<open>DisconnectReason.loggedOut\<close>\<close>
  dirname :: string                 \<comment> \<open>\<open>__dirname\<close>\<close>
  existsSync :: "string \<Rightarrow> bool"   \<comment> \<open>\<open>fs.existsSync\<close>\<close>
  now :: int                        \<comment> \<open>\<open>Date.now()\<close>\<close>

datatype input =
    Socket_created sock  \<comment> \<open>a call of \<open>connectToWhatsApp\<close> has come to \<open>globalSocket = sock\<close>\<close>
  | Connection_update update
  | Messages_upsert "wa_message list"
  | Send_message client "send_data option" net_outcome
  | Send_pdf client "send_data option" net_outcome
  | Check_status client

fun step :: "env \<Rightarrow> server \<Rightarrow> input \<Rightarrow> server \<times> effect list" where
  "step e st (Socket_created s) = (connectToWhatsApp st s, [])"
| "step e st (Connection_update u) = (st, fst (on_connection_update (loggedOut e) u))"
| "step e st (Messages_upsert ms) = (st, fst (messages_upsert (now e) ms))"
| "step e st (Send_message c d net) = (st, fst (send_message st c d net))"
| "step e st (Send_pdf c d net) = (st, fst (send_pdf (dirname e) (existsSync e) st c d net))"
| "step e st (Check_status c) = (st, fst (check_status st c))"

fun run :: "env \<Rightarrow> server \<Rightarrow> input list \<Rightarrow> server \<times> effect list" where
  "run e st [] = (st, [])"
| "run e st (i # is) =
     (case step e st i of
        (st', effs) \<Rightarrow> (case run e st' is of (st'', effs') \<Rightarrow> (st'', effs @ effs')))"

text \<open>The status of the most recent \<open>connection_status\<close> broadcast of a trace.\<close>

fun last_status :: "effect list \<Rightarrow> string option" where
  "last_status [] = None"
| "last_status (Broadcast (Connection_status s) # effs) =
     (case last_status effs of None \<Rightarrow> Some s | Some s' \<Rightarrow> Some s')"
| "last_status (e # effs) = last_status effs"

subsection \<open>Reading a trace\<close>

fun is_callback :: "effect \<Rightarrow> bool" where
  "is_callback (Callback _ _) = True"
| "is_callback _ = False"

fun is_dispatch :: "effect \<Rightarrow> bool" where
  "is_dispatch (SendMessage _ _ _) = True"
| "is_dispatch _ = False"

text \<open>Whether an effect puts the event \<open>ev\<close> on the connection of client \<open>c\<close>.\<close>

fun delivers :: "event \<Rightarrow> client \<Rightarrow> effect \<Rightarrow> bool" where
  "delivers ev c (Emit c' ev') = (c' = c \<and> ev' = ev)"
| "delivers ev c (Broadcast ev') = (ev' = ev)"
| "delivers ev c _ = False"

text \<open>The effects before, and after, the first call of the network layer.\<close>

definition before_dispatch :: "effect list \<Rightarrow> effect list" where
  "before_dispatch effs = takeWhile (\<lambda>e. \<not> is_dispatch e) effs"

definition after_dispatch :: "effect list \<Rightarrow> effect list" where
  "after_dispatch effs = drop 1 (dropWhile (\<lambda>e. \<not> is_dispatch e) effs)"

text \<open>The bodies of the \<open>new_message\<close> broadcasts of a trace, in order.\<close>

fun bodies :: "effect list \<Rightarrow> string list" where
  "bodies [] = []"
| "bodies (Broadcast (New_message nm) # effs) = nm_message nm # bodies effs"
| "bodies (e # effs) = bodies effs"

text \<open>
  A request is answered exactly once: no exception escapes the handler, and the trace holds
  one call of a callback, that of the requesting client.
\<close>

definition answered_once :: "client \<Rightarrow> effect list \<times> thrown option \<Rightarrow> bool" where
  "answered_once c res =
     (snd res = None \<and> (\<exists>r. filter is_callback (fst res) = [Callback c r]))"

text \<open>The network call is still unsettled when the 25000 ms have passed.\<close>

definition misses_deadline :: "net_outcome \<Rightarrow> bool" where
  "misses_deadline net =
     (case net of
        Resolves t \<Rightarrow> 25000 < t
      | Rejects t e \<Rightarrow> 25000 < t
      | Never_settles \<Rightarrow> True)"

text \<open>The network call is fulfilled before the timer is due.\<close>

definition fulfilled_in_time :: "net_outcome \<Rightarrow> bool" where
  "fulfilled_in_time net =
     (case net of
        Resolves t \<Rightarrow> t < timeout_ms
      | Rejects t e \<Rightarrow> False
      | Never_settles \<Rightarrow> False)"

text \<open>A string that \<open>||\<close> passes over: \<open>undefined\<close> or empty.\<close>

definition falsy :: "string option \<Rightarrow> bool" where
  "falsy v = (v = None \<or> v = Some [])"

text \<open>The two conditions under which the loop of \<open>messages.upsert\<close> skips a message.\<close>

definition skipped :: "wa_message \<Rightarrow> bool" where
  "skipped m = (message_payload m = None \<or> fromMe (key m))"

text \<open>
  The body \<open>x\<close> is the first non-empty of \<open>conversation\<close>,
  \<open>extendedTextMessage.text\<close> and \<open>imageMessage.caption\<close>, and the marker when all
  three are missing or empty.
\<close>

definition body_precedence :: "payload_field list \<Rightarrow> string \<Rightarrow> bool" where
  "body_precedence p x =
     (if \<not> falsy (conversation p) then conversation p = Some x
      else if \<not> falsy (extendedTextMessage_text p) then extendedTextMessage_text p = Some x
      else if \<not> falsy (imageMessage_caption p) then imageMessage_caption p = Some x
      else x = ''Mensaje multimedia'')"

subsection \<open>Sample inputs\<close>

definition sample_env :: env where
  "sample_env =
     \<lparr>loggedOut = 401, dirname = ''/srv/wha_api'', existsSync = (\<lambda>p. False),
      now = 1700000000000\<rparr>"

definition sample_server :: server where
  "sample_server = connectToWhatsApp initial 7"

definition sample_data :: "send_data option" where
  "sample_data = Some \<lparr>number = JStr ''+57 314 360-4303'', message = JStr ''hola''\<rparr>"

definition update_open :: update where
  "update_open = \<lparr>connection = Some ''open'', lastDisconnect = None, qr = None\<rparr>"

definition update_logged_out :: update where
  "update_logged_out =
     \<lparr>connection = Some ''close'',
      lastDisconnect = Some \<lparr>error = Some (Boom (Some 401))\<rparr>, qr = None\<rparr>"

definition update_connection_lost :: update where
  "update_connection_lost =
     \<lparr>connection = Some ''close'',
      lastDisconnect = Some \<lparr>error = Some (Boom (Some 408))\<rparr>, qr = None\<rparr>"

definition update_bare_close :: update where
  "update_bare_close = \<lparr>connection = Some ''close'', lastDisconnect = None, qr = None\<rparr>"

definition sample_image :: wa_message where
  "sample_image =
     \<lparr>key = \<lparr>remoteJid = Some ''573143604303@s.whatsapp.net'', fromMe = False\<rparr>,
      message_payload = Some [ImageMessage None],
      pushName = Some ''Ana'', messageTimestamp = Some 1700000000\<rparr>"

definition sample_video :: wa_message where
  "sample_video = sample_image\<lparr>message_payload := Some [VideoMessage (Some ''mira'')]\<rparr>"

definition sample_own :: wa_message where
  "sample_own =
     sample_image\<lparr>key := \<lparr>remoteJid = Some ''573143604303@s.whatsapp.net'', fromMe = True\<rparr>\<rparr>"

section \<open>Auxiliary facts\<close>

subsection \<open>Catch blocks and the shared dispatch\<close>

lemma catch_reply_obj:
  "catch_reply c fb (Thrown_obj m) = ([Callback c (Failure (first_truthy [m] fb))], None)"
  by (simp add: catch_reply_def error_message_or_def)

lemma catch_reply_type_error:
  "catch_reply c fb (type_error w) = ([Callback c (Failure (''TypeError: '' @ w))], None)"
  by (simp add: catch_reply_def error_message_or_def type_error_def)

lemma catch_reply_nullish:
  "catch_reply c fb Thrown_nullish =
     ([], Some (type_error ''Cannot read properties of undefined (reading message)''))"
  by (simp add: catch_reply_def error_message_or_def)

lemma try_catch_None: "try_catch (effs, None) h = (effs, None)"
  by (simp add: try_catch_def)

lemma try_catch_type_error:
  "try_catch (effs, Some (type_error w)) (catch_reply c fb) =
     (effs @ [Callback c (Failure (''TypeError: '' @ w))], None)"
  by (simp add: try_catch_def catch_reply_type_error)

lemma race_cases:
  obtains (fulfilled) u where "race net tm = Inr u"
  | (rejected) m where "race net tm = Inl (Thrown_obj m)"
  | (nullish) "race net tm = Inl Thrown_nullish"
  by (cases "race net tm") (metis thrown.exhaust, simp)

lemma race_fulfilled_iff: "(\<exists>u. race net tm = Inr u) = fulfilled_in_time net"
  by (cases net) (simp_all add: race_def fulfilled_in_time_def)

lemma race_late: "misses_deadline net \<Longrightarrow> race net tm = Inl (Thrown_obj (Some tm))"
  by (cases net) (simp_all add: race_def misses_deadline_def timeout_ms_def)

lemma dispatch_fulfilled:
  "race net tm = Inr u \<Longrightarrow>
   dispatch c gs jid ct net tm ok fb =
     ([Emit c Keep_alive, SendMessage gs jid ct, Emit c Keep_alive, Callback c (Success ok)],
      None)"
  by (simp add: dispatch_def then_do_def try_catch_def)

lemma dispatch_rejected:
  "race net tm = Inl (Thrown_obj m) \<Longrightarrow>
   dispatch c gs jid ct net tm ok fb =
     ([Emit c Keep_alive, SendMessage gs jid ct, Callback c (Failure (first_truthy [m] fb))],
      None)"
  by (simp add: dispatch_def then_do_def try_catch_def catch_reply_obj)

lemma dispatch_rejected_nullish:
  "race net tm = Inl Thrown_nullish \<Longrightarrow>
   dispatch c gs jid ct net tm ok fb =
     ([Emit c Keep_alive, SendMessage gs jid ct],
      Some (type_error ''Cannot read properties of undefined (reading message)''))"
  by (simp add: dispatch_def then_do_def try_catch_def catch_reply_nullish)

text \<open>
  The three ways a dispatch ends, seen from outside the outer \<open>try\<close>: the trace begins
  with the \<open>keep_alive\<close> and the network call, and ends with one callback, preceded by
  a second \<open>keep_alive\<close> exactly when the call was fulfilled in time.
\<close>

lemma outer_dispatch:
  "\<exists>r. try_catch (dispatch c gs jid ct net tm ok fb) (catch_reply c g) =
     ([Emit c Keep_alive, SendMessage gs jid ct]
        @ (if fulfilled_in_time net then [Emit c Keep_alive] else []) @ [Callback c r], None)"
proof (cases net tm rule: race_cases)
  case (fulfilled u)
  then have "fulfilled_in_time net" using race_fulfilled_iff [of net tm] by blast
  with fulfilled show ?thesis by (simp add: dispatch_fulfilled try_catch_None)
next
  case (rejected m)
  then have "\<not> fulfilled_in_time net" using race_fulfilled_iff [of net tm] by auto
  with rejected show ?thesis by (simp add: dispatch_rejected try_catch_None)
next
  case nullish
  then have "\<not> fulfilled_in_time net" using race_fulfilled_iff [of net tm] by auto
  with nullish show ?thesis by (simp add: dispatch_rejected_nullish try_catch_type_error)
qed

lemma outer_dispatch_late:
  assumes "misses_deadline net" and "tm \<noteq> []"
  shows "try_catch (dispatch c gs jid ct net tm ok fb) (catch_reply c g) =
     ([Emit c Keep_alive, SendMessage gs jid ct, Callback c (Failure tm)], None)"
  using assms by (simp add: race_late dispatch_rejected try_catch_None)

subsection \<open>The paths of the two handlers\<close>

text \<open>
  Each handler either stops before the network is called, with a single callback as its
  whole trace, or goes through the shared dispatch.
\<close>

lemma send_message_paths:
  obtains (early) r where "send_message st c data net = ([Callback c (Failure r)], None)"
  | (dispatched) gs d s where "globalSocket st = Some gs" "data = Some d" "number d = JStr s"
      "send_message st c data net =
         try_catch
           (dispatch c gs (filter (\<lambda>c. c \<in> set ''0123456789'') s @ ''@s.whatsapp.net'')
              (Text (message d)) net ''Timeout al enviar mensaje''
              ''Mensaje enviado correctamente'' ''Error al enviar mensaje'')
           (catch_reply c ''Error general al procesar el mensaje'')"
proof (cases "globalSocket st")
  case None
  then have "send_message st c data net = ([Callback c (Failure msg_not_connected)], None)"
    by (simp add: send_message_def try_catch_None)
  then show ?thesis by (rule early)
next
  case gs: (Some gs)
  show ?thesis
  proof (cases data)
    case None
    with gs have "\<exists>r. send_message st c data net = ([Callback c (Failure r)], None)"
      by (simp add: send_message_def destructure_def try_catch_type_error)
    then show ?thesis using early by blast
  next
    case d: (Some d)
    show ?thesis
    proof (cases "number d")
      case JUndefined
      with gs d have "\<exists>r. send_message st c data net = ([Callback c (Failure r)], None)"
        by (simp add: send_message_def destructure_def format_number_def try_catch_type_error)
      then show ?thesis using early by blast
    next
      case (JNum n)
      with gs d have "\<exists>r. send_message st c data net = ([Callback c (Failure r)], None)"
        by (simp add: send_message_def destructure_def format_number_def try_catch_type_error)
      then show ?thesis using early by blast
    next
      case (JStr s)
      with gs d show ?thesis
        by (intro dispatched [of gs d s])
           (simp_all add: send_message_def destructure_def format_number_def)
    qed
  qed
qed

lemma send_pdf_paths:
  obtains (early) r where "send_pdf dir ex st c data net = ([Callback c (Failure r)], None)"
  | (dispatched) gs d s where "globalSocket st = Some gs" "data = Some d" "number d = JStr s"
      "ex (pdfFilePath dir)"
      "send_pdf dir ex st c data net =
         try_catch
           (dispatch c gs (filter (\<lambda>c. c \<in> set ''0123456789'') s @ ''@s.whatsapp.net'')
              (Document (pdfFilePath dir) ''application/pdf'' ''menu go papa.pdf'')
              net ''Timeout al enviar PDF'' ''PDF enviado correctamente'' ''Error al enviar PDF'')
           (catch_reply c msg_general_pdf)"
proof (cases "globalSocket st")
  case None
  then have "send_pdf dir ex st c data net = ([Callback c (Failure msg_not_connected)], None)"
    by (simp add: send_pdf_def try_catch_None)
  then show ?thesis by (rule early)
next
  case gs: (Some gs)
  show ?thesis
  proof (cases data)
    case None
    with gs have "\<exists>r. send_pdf dir ex st c data net = ([Callback c (Failure r)], None)"
      by (simp add: send_pdf_def destructure_def try_catch_type_error)
    then show ?thesis using early by blast
  next
    case d: (Some d)
    show ?thesis
    proof (cases "number d")
      case JUndefined
      with gs d have "\<exists>r. send_pdf dir ex st c data net = ([Callback c (Failure r)], None)"
        by (simp add: send_pdf_def destructure_def format_number_def try_catch_type_error)
      then show ?thesis using early by blast
    next
      case (JNum n)
      with gs d have "\<exists>r. send_pdf dir ex st c data net = ([Callback c (Failure r)], None)"
        by (simp add: send_pdf_def destructure_def format_number_def try_catch_type_error)
      then show ?thesis using early by blast
    next
      case s: (JStr s)
      show ?thesis
      proof (cases "ex (pdfFilePath dir)")
        case False
        with gs d s have "\<exists>r. send_pdf dir ex st c data net = ([Callback c (Failure r)], None)"
          by (simp add: send_pdf_def destructure_def format_number_def try_catch_None)
        then show ?thesis using early by blast
      next
        case True
        with gs d s show ?thesis
          by (intro dispatched [of gs d s])
             (simp_all add: send_pdf_def destructure_def format_number_def)
      qed
    qed
  qed
qed

subsection \<open>Inbound messages\<close>

lemma first_truthy_precedence:
  "first_truthy [a, b, c] d =
     (if \<not> falsy a then first_truthy [a] d
      else if \<not> falsy b then first_truthy [b] d
      else if \<not> falsy c then first_truthy [c] d else d)"
  by (cases a; cases b; cases c) (simp_all add: falsy_def)

lemma first_truthy_single: "\<not> falsy a \<Longrightarrow> a = Some (first_truthy [a] d)"
  by (cases a) (simp_all add: falsy_def)

lemma newMessage_body:
  assumes "newMessage clk m p = Inr nm"
  shows "body_precedence p (nm_message nm)"
proof -
  from assms have "nm_message nm =
      first_truthy [conversation p, extendedTextMessage_text p, imageMessage_caption p]
        ''Mensaje multimedia''"
    by (auto simp: newMessage_def split: sum.splits)
  then show ?thesis
    by (simp add: body_precedence_def first_truthy_precedence first_truthy_single [symmetric])
qed

lemma newMessage_defined:
  assumes "\<not> falsy (pushName m) \<or> remoteJid (key m) \<noteq> None"
  shows "\<exists>nm. newMessage clk m p = Inr nm"
  using assms by (auto simp: newMessage_def falsy_def)

lemma then_do_fst: "fst (then_do effs rest) = effs @ fst rest"
  by (cases rest) (simp add: then_do_def)

lemma upsert_skip_head: "skipped m \<Longrightarrow> messages_upsert clk (m # ms) = messages_upsert clk ms"
  by (auto simp: skipped_def split: option.splits)

lemma upsert_skip:
  "skipped m \<Longrightarrow> messages_upsert clk (ms @ m # ms') = messages_upsert clk (ms @ ms')"
proof (induction ms)
  case Nil
  then show ?case by (simp add: upsert_skip_head del: messages_upsert.simps)
next
  case (Cons a ms)
  then show ?case by (simp split: option.splits sum.splits)
qed

lemma upsert_sound:
  "Broadcast (New_message nm) \<in> set (fst (messages_upsert clk batch)) \<Longrightarrow>
   \<exists>m\<in>set batch. \<exists>p. message_payload m = Some p \<and> \<not> fromMe (key m)
      \<and> body_precedence p (nm_message nm)"
proof (induction batch)
  case Nil
  then show ?case by simp
next
  case (Cons a batch)
  show ?case
  proof (cases "skipped a")
    case True
    with Cons show ?thesis by (auto simp: upsert_skip_head simp del: messages_upsert.simps)
  next
    case False
    then obtain p where p: "message_payload a = Some p" and own: "\<not> fromMe (key a)"
      by (auto simp: skipped_def)
    show ?thesis
    proof (cases "newMessage clk a p")
      case (Inl e)
      with p own Cons.prems show ?thesis by simp
    next
      case (Inr nm')
      with p own Cons.prems
      have "nm = nm' \<or> Broadcast (New_message nm) \<in> set (fst (messages_upsert clk batch))"
        by (auto simp: then_do_fst)
      then show ?thesis
      proof
        assume "nm = nm'"
        with Inr have "body_precedence p (nm_message nm)" by (simp add: newMessage_body)
        with p own show ?thesis by auto
      next
        assume "Broadcast (New_message nm) \<in> set (fst (messages_upsert clk batch))"
        with Cons.IH show ?thesis by auto
      qed
    qed
  qed
qed

lemma upsert_single:
  assumes "message_payload m = Some p" and "\<not> fromMe (key m)"
    and "\<not> falsy (pushName m) \<or> remoteJid (key m) \<noteq> None"
  shows "\<exists>nm. messages_upsert clk [m] = ([Broadcast (New_message nm)], None)
            \<and> body_precedence p (nm_message nm)"
proof -
  from assms(3) obtain nm where nm: "newMessage clk m p = Inr nm"
    using newMessage_defined by blast
  with assms(1,2) have "messages_upsert clk [m] = ([Broadcast (New_message nm)], None)"
    by (simp add: then_do_def)
  with nm show ?thesis by (auto simp: newMessage_body)
qed

subsection \<open>Evaluating the sample inputs\<close>

lemmas handler_defs =
  send_message_def send_pdf_def dispatch_def try_catch_def then_do_def catch_reply_def
  error_message_or_def race_def timeout_ms_def destructure_def format_number_def
  type_error_def pdfFilePath_def on_connection_update_def statusCode_def check_status_def
  check_status_reply_def connectToWhatsApp_def initial_def msg_not_connected_def

lemmas sample_defs =
  sample_env_def sample_server_def sample_data_def update_open_def update_logged_out_def
  update_connection_lost_def update_bare_close_def sample_image_def sample_video_def
  sample_own_def

lemma dispatched_no_connect:
  assumes "res = try_catch (dispatch c gs jid ct net tm ok fb) (catch_reply c g)"
  shows "ConnectToWhatsApp \<notin> set (fst res)"
proof -
  obtain r where "res = ([Emit c Keep_alive, SendMessage gs jid ct]
        @ (if fulfilled_in_time net then [Emit c Keep_alive] else []) @ [Callback c r], None)"
    using outer_dispatch assms by metis
  then show ?thesis by simp
qed

section \<open>Properties\<close>

subsection \<open>Requests while the session is not connected\<close>

text \<open>
  What the guard \<open>if (!globalSocket)\<close> does reject: a request made before any socket was
  created is answered with the not-connected error, and the network layer is not called.
\<close>

lemma send_without_handle_rejected:
  assumes "globalSocket st = None"
  shows "send_message st c data net = ([Callback c (Failure msg_not_connected)], None)"
    and "send_pdf dir ex st c data net = ([Callback c (Failure msg_not_connected)], None)"
  using assms by (simp_all add: send_message_def send_pdf_def try_catch_None)

text \<open>
  C1. Every \<open>send_message\<close> or \<open>send_pdf\<close> request issued while the session is not
  connected is answered with the not-connected error, before any dispatch to the network
  layer. The code tests \<open>globalSocket\<close>, which is set when the socket is created and never
  cleared: after the session was opened and then closed with reason \<open>loggedOut\<close> (the
  server itself has broadcast \<open>connection_status: disconnected\<close> and starts no
  reconnect), a \<open>send_message\<close> request still calls \<open>sendMessage\<close> on the closed
  socket, and the caller gets the network layer's error instead.
\<close>

theorem send_after_logout_reaches_network:
  "run sample_env initial
     [Socket_created 7, Connection_update update_open, Connection_update update_logged_out,
      Send_message 1 sample_data (Rejects 120 (Thrown_obj (Some ''Connection Closed'')))]
   = (\<lparr>globalSocket = Some 7\<rparr>,
      [Broadcast (Connection_status ''connected''),
       Broadcast (Connection_status ''disconnected''),
       Emit 1 Keep_alive,
       SendMessage 7 ''573143604303@s.whatsapp.net'' (Text (JStr ''hola'')),
       Callback 1 (Failure ''Connection Closed'')])"
  by (simp add: handler_defs sample_defs)

subsection \<open>\<open>check_status\<close>\<close>

text \<open>
  What \<open>check_status\<close> does guarantee: it answers without calling the network layer and
  without an exception, and before the first socket exists the answer is
  \<open>{connected: false, status: 'disconnected'}\<close>.
\<close>

lemma check_status_answers_at_once:
  "\<not> list_ex is_dispatch (fst (check_status st c)) \<and> snd (check_status st c) = None"
  by (simp add: check_status_def)

lemma check_status_before_first_socket:
  "check_status initial c
     = ([Status_callback c \<lparr>connected = False, status = ''disconnected''\<rparr>], None)"
  by (simp add: check_status_def check_status_reply_def initial_def)

text \<open>
  C2. \<open>check_status\<close> reflects the most recent state transition; while the session is
  disconnected the reply is \<open>{connected: false, status: 'disconnected'}\<close>. The handler
  does answer at once and without the network, but from \<open>globalSocket\<close> alone: after the
  session was opened and then closed with reason \<open>loggedOut\<close>, the last status the
  server has broadcast is \<open>disconnected\<close>, and \<open>check_status\<close> replies
  \<open>{connected: true, status: 'connected'}\<close>.
\<close>

theorem status_after_logout_says_connected:
  "last_status (snd (run sample_env initial
      [Socket_created 7, Connection_update update_open, Connection_update update_logged_out]))
     = Some ''disconnected''
   \<and> check_status (fst (run sample_env initial
      [Socket_created 7, Connection_update update_open, Connection_update update_logged_out])) 2
     = ([Status_callback 2 \<lparr>connected = True, status = ''connected''\<rparr>], None)"
  by (simp add: handler_defs sample_defs)

text \<open>
  C10. Every \<open>check_status\<close> reply satisfies \<open>connected = (status = 'connected')\<close>: the
  handler answers with exactly one reply, and in it the two fields agree, both being computed
  from the same test of \<open>globalSocket\<close>.
\<close>

theorem check_status_fields_agree:
  "\<exists>r. check_status st c = ([Status_callback c r], None)
       \<and> connected r = (status r = ''connected'')
       \<and> (\<not> connected r) = (status r = ''disconnected'')"
  by (simp add: check_status_def check_status_reply_def)

subsection \<open>Closing the session\<close>

text \<open>
  C3. For every close event that carries its \<open>lastDisconnect\<close> record: the handler
  completes and broadcasts \<open>connection_status: disconnected\<close>; it calls
  \<open>connectToWhatsApp\<close> exactly when the status code of the close reason is not
  \<open>loggedOut\<close>, and then at once, before the broadcast. Nothing else in the server calls
  \<open>connectToWhatsApp\<close>: a step whose trace holds such a call is the handling of a close
  event with another reason, so after a logout no reconnect is issued.
\<close>

theorem close_reconnects_unless_logged_out:
  "(connection u = Some ''close'' \<and> lastDisconnect u = Some ld \<longrightarrow>
      snd (on_connection_update lo u) = None
      \<and> last_status (fst (on_connection_update lo u)) = Some ''disconnected''
      \<and> (statusCode ld = Some lo \<longrightarrow> ConnectToWhatsApp \<notin> set (fst (on_connection_update lo u)))
      \<and> (statusCode ld \<noteq> Some lo \<longrightarrow>
           (\<exists>pre. fst (on_connection_update lo u)
                    = pre @ [ConnectToWhatsApp, Broadcast (Connection_status ''disconnected'')]
                  \<and> ConnectToWhatsApp \<notin> set pre)))
   \<and> (ConnectToWhatsApp \<in> set (snd (step e st i)) \<longrightarrow>
        (\<exists>u' ld'. i = Connection_update u' \<and> connection u' = Some ''close''
           \<and> lastDisconnect u' = Some ld' \<and> statusCode ld' \<noteq> Some (loggedOut e)))"
proof (intro conjI impI)
  assume close: "connection u = Some ''close'' \<and> lastDisconnect u = Some ld"
  then show "snd (on_connection_update lo u) = None"
    by (simp add: on_connection_update_def then_do_def)
  from close show "last_status (fst (on_connection_update lo u)) = Some ''disconnected''"
    by (simp add: on_connection_update_def then_do_def split: option.splits)
  {
    assume "statusCode ld = Some lo"
    with close show "ConnectToWhatsApp \<notin> set (fst (on_connection_update lo u))"
      by (simp add: on_connection_update_def then_do_def split: option.splits)
  }
  {
    assume "statusCode ld \<noteq> Some lo"
    with close show "\<exists>pre. fst (on_connection_update lo u)
          = pre @ [ConnectToWhatsApp, Broadcast (Connection_status ''disconnected'')]
        \<and> ConnectToWhatsApp \<notin> set pre"
      by (simp add: on_connection_update_def then_do_def split: option.splits)
  }
next
  assume call: "ConnectToWhatsApp \<in> set (snd (step e st i))"
  show "\<exists>u' ld'. i = Connection_update u' \<and> connection u' = Some ''close''
           \<and> lastDisconnect u' = Some ld' \<and> statusCode ld' \<noteq> Some (loggedOut e)"
  proof (cases i)
    case (Socket_created s)
    with call show ?thesis by simp
  next
    case (Connection_update u')
    with call show ?thesis
      by (auto simp: on_connection_update_def then_do_def split: option.splits if_splits)
  next
    case (Messages_upsert ms)
    have "ConnectToWhatsApp \<notin> set (fst (messages_upsert (now e) ms))"
      by (induction ms) (auto simp: then_do_fst split: option.splits sum.splits)
    with call Messages_upsert show ?thesis by simp
  next
    case (Send_message c d net)
    have "ConnectToWhatsApp \<notin> set (fst (send_message st c d net))"
    proof (cases rule: send_message_paths [of st c d net])
      case (early r)
      then show ?thesis by simp
    next
      case (dispatched gs d' s)
      from dispatched(4) show ?thesis by (rule dispatched_no_connect)
    qed
    with call Send_message show ?thesis by simp
  next
    case (Send_pdf c d net)
    have "ConnectToWhatsApp \<notin> set (fst (send_pdf (dirname e) (existsSync e) st c d net))"
    proof (cases rule: send_pdf_paths [of "dirname e" "existsSync e" st c d net])
      case (early r)
      then show ?thesis by simp
    next
      case (dispatched gs d' s)
      from dispatched(5) show ?thesis by (rule dispatched_no_connect)
    qed
    with call Send_pdf show ?thesis by simp
  next
    case (Check_status c)
    with call show ?thesis by (simp add: check_status_def)
  qed
qed

theorem close_reconnects_unless_logged_out_witness:
  "fst (on_connection_update 401 update_logged_out)
     = [Broadcast (Connection_status ''disconnected'')]
   \<and> fst (on_connection_update 401 update_connection_lost)
     = [ConnectToWhatsApp, Broadcast (Connection_status ''disconnected'')]
   \<and> ConnectToWhatsApp \<notin> set (fst (on_connection_update 401 update_logged_out))
   \<and> ConnectToWhatsApp \<in> set (snd (step sample_env sample_server
        (Connection_update update_connection_lost)))"
  using close_reconnects_unless_logged_out
    [of update_logged_out "\<lparr>error = Some (Boom (Some 401))\<rparr>" 401 sample_env sample_server
       "Connection_update update_connection_lost"]
    close_reconnects_unless_logged_out
    [of update_connection_lost "\<lparr>error = Some (Boom (Some 408))\<rparr>" 401 sample_env
       sample_server "Connection_update update_connection_lost"]
  by (simp add: handler_defs sample_defs)

text \<open>
  C9. The close branch reads \<open>lastDisconnect.error\<close> without testing \<open>lastDisconnect\<close>:
  the handler of \<open>connection.update\<close> ends in an exception exactly on a close event that
  lacks the record, and then neither the reconnect nor the status broadcast is reached.
\<close>

theorem close_without_record_throws:
  "(snd (on_connection_update lo u) = None)
     = (connection u \<noteq> Some ''close'' \<or> lastDisconnect u \<noteq> None)
   \<and> (connection u = Some ''close'' \<and> lastDisconnect u = None \<longrightarrow>
        ConnectToWhatsApp \<notin> set (fst (on_connection_update lo u))
        \<and> last_status (fst (on_connection_update lo u)) = None)"
  by (auto simp: on_connection_update_def then_do_def split: option.splits)

theorem close_without_record_throws_witness:
  "connection update_bare_close = Some ''close'' \<and> lastDisconnect update_bare_close = None
   \<and> snd (on_connection_update 401 update_bare_close) \<noteq> None
   \<and> fst (on_connection_update 401 update_bare_close) = []
   \<and> snd (on_connection_update 401 update_logged_out) = None"
  using close_without_record_throws [of 401 update_bare_close]
    close_without_record_throws [of 401 update_logged_out]
  by (simp add: handler_defs sample_defs)

subsection \<open>Answering a send request\<close>

text \<open>
  C7. Every \<open>send_message\<close> and every \<open>send_pdf\<close> call is answered exactly once
  through the caller's own callback: whatever the state, the request data and the behaviour of
  the network, no exception escapes the handler and its trace holds exactly one callback call,
  that of the requesting client.
\<close>

theorem send_answered_exactly_once:
  "answered_once c (send_message st c data net)
   \<and> answered_once c (send_pdf dir ex st c data net)"
proof
  show "answered_once c (send_message st c data net)"
  proof (cases rule: send_message_paths [of st c data net])
    case (early r)
    then show ?thesis by (simp add: answered_once_def)
  next
    case (dispatched gs d s)
    from outer_dispatch obtain r where
      "try_catch
         (dispatch c gs (filter (\<lambda>c. c \<in> set ''0123456789'') s @ ''@s.whatsapp.net'')
            (Text (message d)) net ''Timeout al enviar mensaje''
            ''Mensaje enviado correctamente'' ''Error al enviar mensaje'')
         (catch_reply c ''Error general al procesar el mensaje'')
       = ([Emit c Keep_alive,
           SendMessage gs (filter (\<lambda>c. c \<in> set ''0123456789'') s @ ''@s.whatsapp.net'')
             (Text (message d))]
          @ (if fulfilled_in_time net then [Emit c Keep_alive] else []) @ [Callback c r], None)"
      by blast
    with dispatched(4) show ?thesis by (simp add: answered_once_def)
  qed
  show "answered_once c (send_pdf dir ex st c data net)"
  proof (cases rule: send_pdf_paths [of dir ex st c data net])
    case (early r)
    then show ?thesis by (simp add: answered_once_def)
  next
    case (dispatched gs d s)
    from outer_dispatch obtain r where
      "try_catch
         (dispatch c gs (filter (\<lambda>c. c \<in> set ''0123456789'') s @ ''@s.whatsapp.net'')
            (Document (pdfFilePath dir) ''application/pdf'' ''menu go papa.pdf'')
            net ''Timeout al enviar PDF'' ''PDF enviado correctamente'' ''Error al enviar PDF'')
         (catch_reply c msg_general_pdf)
       = ([Emit c Keep_alive,
           SendMessage gs (filter (\<lambda>c. c \<in> set ''0123456789'') s @ ''@s.whatsapp.net'')
             (Document (pdfFilePath dir) ''application/pdf'' ''menu go papa.pdf'')]
          @ (if fulfilled_in_time net then [Emit c Keep_alive] else []) @ [Callback c r], None)"
      by blast
    with dispatched(5) show ?thesis by (simp add: answered_once_def)
  qed
qed

text \<open>
  C4. For every \<open>send_message\<close> or \<open>send_pdf\<close> request that reached the network layer
  and whose network call is still unsettled when the 25000 ms have passed, the caller is
  answered exactly once, with the failure whose error is the timeout message of that handler.
\<close>

theorem late_send_reports_timeout:
  "(misses_deadline net \<and> list_ex is_dispatch (fst (send_message st c data net)) \<longrightarrow>
      snd (send_message st c data net) = None
      \<and> filter is_callback (fst (send_message st c data net))
          = [Callback c (Failure ''Timeout al enviar mensaje'')])
   \<and> (misses_deadline net \<and> list_ex is_dispatch (fst (send_pdf dir ex st c data net)) \<longrightarrow>
      snd (send_pdf dir ex st c data net) = None
      \<and> filter is_callback (fst (send_pdf dir ex st c data net))
          = [Callback c (Failure ''Timeout al enviar PDF'')])"
proof (intro conjI impI)
  assume late: "misses_deadline net \<and> list_ex is_dispatch (fst (send_message st c data net))"
  have "snd (send_message st c data net) = None
      \<and> filter is_callback (fst (send_message st c data net))
          = [Callback c (Failure ''Timeout al enviar mensaje'')]"
  proof (cases rule: send_message_paths [of st c data net])
    case (early r)
    with late show ?thesis by simp
  next
    case (dispatched gs d s)
    with late show ?thesis by (simp add: outer_dispatch_late)
  qed
  then show "snd (send_message st c data net) = None"
    and "filter is_callback (fst (send_message st c data net))
          = [Callback c (Failure ''Timeout al enviar mensaje'')]"
    by simp_all
next
  assume late: "misses_deadline net
     \<and> list_ex is_dispatch (fst (send_pdf dir ex st c data net))"
  have "snd (send_pdf dir ex st c data net) = None
      \<and> filter is_callback (fst (send_pdf dir ex st c data net))
          = [Callback c (Failure ''Timeout al enviar PDF'')]"
  proof (cases rule: send_pdf_paths [of dir ex st c data net])
    case (early r)
    with late show ?thesis by simp
  next
    case (dispatched gs d s)
    with late show ?thesis by (simp add: outer_dispatch_late)
  qed
  then show "snd (send_pdf dir ex st c data net) = None"
    and "filter is_callback (fst (send_pdf dir ex st c data net))
          = [Callback c (Failure ''Timeout al enviar PDF'')]"
    by simp_all
qed

theorem late_send_reports_timeout_witness:
  "misses_deadline (Resolves 31000)
   \<and> list_ex is_dispatch (fst (send_message sample_server 1 sample_data (Resolves 31000)))
   \<and> filter is_callback (fst (send_message sample_server 1 sample_data (Resolves 31000)))
       = [Callback 1 (Failure ''Timeout al enviar mensaje'')]
   \<and> misses_deadline Never_settles
   \<and> list_ex is_dispatch
       (fst (send_pdf ''/srv/wha_api'' (\<lambda>p. True) sample_server 1 sample_data Never_settles))
   \<and> filter is_callback
       (fst (send_pdf ''/srv/wha_api'' (\<lambda>p. True) sample_server 1 sample_data Never_settles))
       = [Callback 1 (Failure ''Timeout al enviar PDF'')]"
proof -
  have m: "misses_deadline (Resolves 31000)" "misses_deadline Never_settles"
    by (simp_all add: misses_deadline_def)
  have d1: "list_ex is_dispatch (fst (send_message sample_server 1 sample_data (Resolves 31000)))"
    by (simp add: handler_defs sample_defs)
  have d2: "list_ex is_dispatch
       (fst (send_pdf ''/srv/wha_api'' (\<lambda>p. True) sample_server 1 sample_data Never_settles))"
    by (simp add: handler_defs sample_defs)
  from m d1 d2
    late_send_reports_timeout [of "Resolves 31000" sample_server 1 sample_data]
    late_send_reports_timeout [of Never_settles sample_server 1 sample_data
      "''/srv/wha_api''" "\<lambda>p. True"]
  show ?thesis by blast
qed

text \<open>
  C6. For every \<open>send_pdf\<close> request made while the PDF file is absent, the network layer
  is not called; and when the request passes the two earlier checks (a session handle exists
  and \<open>number\<close> is a string), the caller's answer is the failure
  \<open>El archivo PDF no existe\<close>.
\<close>

theorem missing_pdf_never_dispatched:
  "\<not> ex (pdfFilePath dir) \<longrightarrow>
     \<not> list_ex is_dispatch (fst (send_pdf dir ex st c data net))
     \<and> (globalSocket st \<noteq> None \<and> (\<exists>d s. data = Some d \<and> number d = JStr s) \<longrightarrow>
          send_pdf dir ex st c data net
            = ([Callback c (Failure ''El archivo PDF no existe'')], None))"
proof (intro impI conjI)
  assume absent: "\<not> ex (pdfFilePath dir)"
  show "\<not> list_ex is_dispatch (fst (send_pdf dir ex st c data net))"
  proof (cases rule: send_pdf_paths [of dir ex st c data net])
    case (early r)
    then show ?thesis by simp
  next
    case (dispatched gs d s)
    with absent show ?thesis by simp
  qed
  assume "globalSocket st \<noteq> None \<and> (\<exists>d s. data = Some d \<and> number d = JStr s)"
  with absent show "send_pdf dir ex st c data net
      = ([Callback c (Failure ''El archivo PDF no existe'')], None)"
    by (auto simp: send_pdf_def destructure_def format_number_def try_catch_None)
qed

theorem missing_pdf_never_dispatched_witness:
  "\<not> existsSync sample_env (pdfFilePath (dirname sample_env))
   \<and> globalSocket sample_server \<noteq> None
   \<and> send_pdf (dirname sample_env) (existsSync sample_env) sample_server 1 sample_data
        (Resolves 800)
      = ([Callback 1 (Failure ''El archivo PDF no existe'')], None)"
  using missing_pdf_never_dispatched
    [of "existsSync sample_env" "dirname sample_env" sample_server 1 sample_data "Resolves 800"]
  by (simp add: sample_defs connectToWhatsApp_def)

text \<open>
  Without a session handle the first guard answers, whether the file is there or not: the
  caller gets the not-connected error, not the missing-file error.
\<close>

theorem missing_pdf_without_session:
  "\<not> existsSync sample_env (pdfFilePath (dirname sample_env))
   \<and> send_pdf (dirname sample_env) (existsSync sample_env) initial 1 sample_data (Resolves 800)
      = ([Callback 1 (Failure msg_not_connected)], None)
   \<and> msg_not_connected \<noteq> ''El archivo PDF no existe''"
  by (simp add: handler_defs sample_defs)

text \<open>
  C8. In every \<open>send_message\<close> or \<open>send_pdf\<close> request that reaches the network layer, a
  \<open>keep_alive\<close> goes to the requesting client before the network call, and a second one
  after it exactly when the call is fulfilled before the deadline; no \<open>keep_alive\<close> of
  the request reaches any other client.
\<close>

theorem keep_alive_around_dispatch:
  "effs = fst (send_message st c data net) \<or> effs = fst (send_pdf dir ex st c data net) \<longrightarrow>
     (list_ex is_dispatch effs \<longrightarrow>
        list_ex (delivers Keep_alive c) (before_dispatch effs)
        \<and> list_ex (delivers Keep_alive c) (after_dispatch effs) = fulfilled_in_time net)
     \<and> (\<forall>c'. c' \<noteq> c \<longrightarrow> \<not> list_ex (delivers Keep_alive c') effs)"
proof
  assume "effs = fst (send_message st c data net) \<or> effs = fst (send_pdf dir ex st c data net)"
  then consider (early) r where "effs = [Callback c (Failure r)]"
    | (dispatched) gs jid ct r where
        "effs = [Emit c Keep_alive, SendMessage gs jid ct]
           @ (if fulfilled_in_time net then [Emit c Keep_alive] else []) @ [Callback c r]"
  proof
    assume m: "effs = fst (send_message st c data net)"
    show ?thesis
    proof (cases rule: send_message_paths [of st c data net])
      case (early r)
      with m show ?thesis by (intro that(1) [of r]) simp
    next
      case (dispatched gs d s)
      with m outer_dispatch show ?thesis by (metis (no_types, lifting) fst_conv that(2))
    qed
  next
    assume p: "effs = fst (send_pdf dir ex st c data net)"
    show ?thesis
    proof (cases rule: send_pdf_paths [of dir ex st c data net])
      case (early r)
      with p show ?thesis by (intro that(1) [of r]) simp
    next
      case (dispatched gs d s)
      with p outer_dispatch show ?thesis by (metis (no_types, lifting) fst_conv that(2))
    qed
  qed
  then show "(list_ex is_dispatch effs \<longrightarrow>
        list_ex (delivers Keep_alive c) (before_dispatch effs)
        \<and> list_ex (delivers Keep_alive c) (after_dispatch effs) = fulfilled_in_time net)
     \<and> (\<forall>c'. c' \<noteq> c \<longrightarrow> \<not> list_ex (delivers Keep_alive c') effs)"
  proof cases
    case (early r)
    then show ?thesis by simp
  next
    case (dispatched gs jid ct r)
    then show ?thesis by (simp add: before_dispatch_def after_dispatch_def)
  qed
qed

theorem keep_alive_around_dispatch_witness:
  "list_ex is_dispatch (fst (send_message sample_server 1 sample_data (Resolves 800)))
   \<and> list_ex (delivers Keep_alive 1)
       (before_dispatch (fst (send_message sample_server 1 sample_data (Resolves 800))))
   \<and> list_ex (delivers Keep_alive 1)
       (after_dispatch (fst (send_message sample_server 1 sample_data (Resolves 800))))
   \<and> \<not> list_ex (delivers Keep_alive 2)
       (fst (send_message sample_server 1 sample_data (Resolves 800)))"
proof -
  have d: "list_ex is_dispatch (fst (send_message sample_server 1 sample_data (Resolves 800)))"
    by (simp add: handler_defs sample_defs)
  have f: "fulfilled_in_time (Resolves 800)"
    by (simp add: fulfilled_in_time_def timeout_ms_def)
  from d f
    keep_alive_around_dispatch
      [of "fst (send_message sample_server 1 sample_data (Resolves 800))" sample_server 1
          sample_data "Resolves 800"]
  show ?thesis by auto
qed

text \<open>
  When the network call is rejected, the handler goes from the call straight to the
  \<open>catch\<close> block: no \<open>keep_alive\<close> follows the dispatch.
\<close>

theorem no_keep_alive_after_failed_dispatch:
  "list_ex is_dispatch
     (fst (send_message sample_server 1 sample_data
        (Rejects 120 (Thrown_obj (Some ''Connection Closed'')))))
   \<and> \<not> list_ex (delivers Keep_alive 1)
       (after_dispatch (fst (send_message sample_server 1 sample_data
          (Rejects 120 (Thrown_obj (Some ''Connection Closed''))))))"
  by (simp add: handler_defs sample_defs after_dispatch_def)

subsection \<open>Inbound messages\<close>

text \<open>
  C5. Of a batch of inbound messages, a message without payload or from the session's own
  account is skipped: dropping it from the batch changes nothing. Every \<open>new_message\<close>
  that is broadcast comes from a message that is not skipped, and its body is the first
  non-empty of the plain text (\<open>conversation\<close>, else \<open>extendedTextMessage.text\<close>) and
  the caption of an image attachment, and the literal \<open>Mensaje multimedia\<close> when there is
  none of them. A single message that is not skipped and has a push name or a remote JID is
  broadcast, with that body.
\<close>

theorem inbound_body_precedence:
  "(skipped m \<longrightarrow> messages_upsert clk (ms @ m # ms') = messages_upsert clk (ms @ ms'))
   \<and> (Broadcast (New_message nm) \<in> set (fst (messages_upsert clk batch)) \<longrightarrow>
        (\<exists>m'\<in>set batch. \<exists>p. message_payload m' = Some p \<and> \<not> fromMe (key m')
           \<and> body_precedence p (nm_message nm)))
   \<and> (message_payload m1 = Some p1 \<and> \<not> fromMe (key m1)
        \<and> (\<not> falsy (pushName m1) \<or> remoteJid (key m1) \<noteq> None) \<longrightarrow>
        (\<exists>nm1. messages_upsert clk [m1] = ([Broadcast (New_message nm1)], None)
           \<and> body_precedence p1 (nm_message nm1)))"
  using upsert_skip upsert_sound upsert_single by blast

theorem inbound_body_precedence_witness:
  "skipped sample_own
   \<and> messages_upsert 0 ([] @ sample_own # [sample_image]) = messages_upsert 0 ([] @ [sample_image])
   \<and> (\<exists>nm1. messages_upsert 0 [sample_image] = ([Broadcast (New_message nm1)], None)
         \<and> nm_message nm1 = ''Mensaje multimedia'')"
proof -
  have s: "skipped sample_own" by (simp add: skipped_def sample_defs)
  have p: "message_payload sample_image = Some [ImageMessage None]"
    "\<not> fromMe (key sample_image)" "\<not> falsy (pushName sample_image)"
    by (simp_all add: sample_defs falsy_def)
  have b: "body_precedence [ImageMessage None] x = (x = ''Mensaje multimedia'')" for x
    by (simp add: body_precedence_def falsy_def)
  from s p show ?thesis
    using inbound_body_precedence
      [of sample_own 0 "[]" "[sample_image]" _ _ sample_image "[ImageMessage None]"]
    by (simp add: b)
qed

text \<open>
  The caption of a video attachment is not read: such a message is broadcast with the marker,
  which is the Spanish literal of the source.
\<close>

theorem video_caption_not_used:
  "message_payload sample_video = Some [VideoMessage (Some ''mira'')]
   \<and> bodies (fst (messages_upsert 0 [sample_video])) = [''Mensaje multimedia'']
   \<and> ''Mensaje multimedia'' \<noteq> ''mira''
   \<and> ''Mensaje multimedia'' \<noteq> ''multimedia message''"
  by (simp add: sample_defs newMessage_def then_do_def)

end
